theory Spec2Isabelle
  imports Main "HOL-Library.Sublist"
begin

section \<open>Strings\<close>

text \<open>
  A string is a list of \<^typ>\<open>char\<close>: the code units U+0000 to U+00FF of a JavaScript
  string. \<open>is_space\<close> holds of the white space and line terminator characters of that
  range (TAB, LF, VT, FF, CR, SP, NBSP): the characters that \<^verbatim>\<open>\s\<close> matches in a
  regular expression and that \<^verbatim>\<open>parseFloat\<close> skips at the start of its input.
\<close>

definition is_space :: "char \<Rightarrow> bool" where
  "is_space c = (c \<in> set [CHR 0x09, CHR 0x0A, CHR 0x0B, CHR 0x0C, CHR 0x0D, CHR 0x20, CHR 0xA0])"

definition is_digit :: "char \<Rightarrow> bool" where
  "is_digit c = (c \<in> set ''0123456789'')"

text \<open>\<^verbatim>\<open>s.startsWith(t)\<close>\<close>

definition startsWith :: "string \<Rightarrow> string \<Rightarrow> bool" where
  "startsWith s t = (take (length t) s = t)"

text \<open>\<^verbatim>\<open>s.includes(t)\<close>: some position of \<open>s\<close> starts an occurrence of \<open>t\<close>.\<close>

fun str_includes :: "string \<Rightarrow> string \<Rightarrow> bool" where
  "str_includes [] t = (t = [])"
| "str_includes (c # cs) t = (startsWith (c # cs) t \<or> str_includes cs t)"

text \<open>
  \<^verbatim>\<open>s.toLowerCase()\<close> on the code units of the range: the letters A to Z, and the
  capital letters U+00C0 to U+00DE without the multiplication sign U+00D7.
\<close>

definition lower_char :: "char \<Rightarrow> char" where
  "lower_char c =
     (let n = (of_char c :: nat)
      in if (65 \<le> n \<and> n \<le> 90) \<or> (192 \<le> n \<and> n \<le> 222 \<and> n \<noteq> 215)
         then char_of (n + 32) else c)"

definition toLowerCase :: "string \<Rightarrow> string" where
  "toLowerCase s = map lower_char s"

text \<open>
  \<^verbatim>\<open>s.replace(p, r)\<close> with a one-character string pattern \<open>p\<close>: only the first
  occurrence is replaced.
\<close>

fun replace_first :: "char \<Rightarrow> string \<Rightarrow> string \<Rightarrow> string" where
  "replace_first p r [] = []"
| "replace_first p r (c # cs) = (if c = p then r @ cs else c # replace_first p r cs)"

text \<open>\<^verbatim>\<open>s.replace(/\s/g, r)\<close>: every white space character is replaced.\<close>

fun replace_all_space :: "string \<Rightarrow> string \<Rightarrow> string" where
  "replace_all_space r [] = []"
| "replace_all_space r (c # cs) =
     (if is_space c then r @ replace_all_space r cs else c # replace_all_space r cs)"

section \<open>Values, numbers and \<^verbatim>\<open>parseFloat\<close>\<close>

text \<open>
  The field values of a record are primitive: undefined, null, a boolean, a number or a
  string. The arithmetic of IEEE doubles is not modelled: \<open>'n\<close> is the type of the
  numbers other than NaN, and the two conversions between a number and its decimal
  notation are parameters (\<open>numerics\<close>).
\<close>

datatype 'n number = NaN | Numeric 'n

datatype 'n jsval =
    JUndefined
  | JNull
  | JBool bool
  | JNumber "'n number"
  | JString string

record 'n numerics =
  number_of_literal :: "string \<Rightarrow> 'n"
  string_of_number :: "'n \<Rightarrow> string"

definition ToString :: "'n numerics \<Rightarrow> 'n jsval \<Rightarrow> string" where
  "ToString N v =
     (case v of
        JUndefined \<Rightarrow> ''undefined''
      | JNull \<Rightarrow> ''null''
      | JBool b \<Rightarrow> (if b then ''true'' else ''false'')
      | JNumber NaN \<Rightarrow> ''NaN''
      | JNumber (Numeric x) \<Rightarrow> string_of_number N x
      | JString s \<Rightarrow> s)"

text \<open>
  The longest prefix of a string that is a \<^verbatim>\<open>StrDecimalLiteral\<close>: an optional sign,
  then \<^verbatim>\<open>Infinity\<close>, or digits with an optional fraction, or a fraction, each with an
  optional exponent. An \<^verbatim>\<open>e\<close> that no digit follows is not part of the literal.
\<close>

definition exponent_part :: "string \<Rightarrow> string" where
  "exponent_part s =
     (case s of
        [] \<Rightarrow> []
      | e # r \<Rightarrow>
          if e = CHR ''e'' \<or> e = CHR ''E'' then
            (case r of
               [] \<Rightarrow> []
             | c # r' \<Rightarrow>
                 if c = CHR ''+'' \<or> c = CHR ''-'' then
                   (if takeWhile is_digit r' = [] then [] else e # c # takeWhile is_digit r')
                 else
                   (if takeWhile is_digit r = [] then [] else e # takeWhile is_digit r))
          else [])"

definition unsigned_literal :: "string \<Rightarrow> string option" where
  "unsigned_literal s =
     (if startsWith s ''Infinity'' then Some ''Infinity''
      else
        (case dropWhile is_digit s of
           [] \<Rightarrow> if takeWhile is_digit s = [] then None else Some (takeWhile is_digit s)
         | c # r \<Rightarrow>
             if c = CHR ''.'' then
               (if takeWhile is_digit s = [] \<and> takeWhile is_digit r = [] then None
                else Some (takeWhile is_digit s @ ''.'' @ takeWhile is_digit r
                           @ exponent_part (dropWhile is_digit r)))
             else
               (if takeWhile is_digit s = [] then None
                else Some (takeWhile is_digit s @ exponent_part (c # r)))))"

definition numeric_prefix :: "string \<Rightarrow> string option" where
  "numeric_prefix s =
     (case s of
        [] \<Rightarrow> None
      | c # r \<Rightarrow>
          if c = CHR ''+'' \<or> c = CHR ''-'' then map_option ((#) c) (unsigned_literal r)
          else unsigned_literal s)"

text \<open>
  \<^verbatim>\<open>parseFloat(v)\<close>: the argument is converted to a string, leading white space is
  dropped, and the longest numeric prefix is the number; NaN when there is none.
\<close>

definition parseFloat :: "'n numerics \<Rightarrow> 'n jsval \<Rightarrow> 'n number" where
  "parseFloat N v =
     (case numeric_prefix (dropWhile is_space (ToString N v)) of
        None \<Rightarrow> NaN
      | Some lit \<Rightarrow> Numeric (number_of_literal N lit))"

section \<open>Objects\<close>

text \<open>
  An object is the list of its own enumerable properties, in the order JavaScript
  enumerates them (\<^verbatim>\<open>for ... in\<close>, \<^verbatim>\<open>Object.keys\<close>, \<^verbatim>\<open>JSON.stringify\<close>): the keys
  that are array indices first, in ascending numeric order, then the other keys in the
  order of their creation. The objects modelled are plain data objects whose prototype is
  \<^verbatim>\<open>Object.prototype\<close>, as an object literal or a row of the CSV parser is; such a row
  never has an own property named \<^verbatim>\<open>__proto__\<close> (assignment to that name does not
  create one), and that name is not treated apart here.
\<close>

type_synonym 'v own_properties = "(string \<times> 'v) list"

type_synonym 'n jsobject = "'n jsval own_properties"

definition decimal :: "string \<Rightarrow> nat" where
  "decimal s = fold (\<lambda>c n. 10 * n + (of_char c - 48)) s 0"

text \<open>
  A key is an array index when it is the canonical decimal notation (no leading zero)
  of an integer below \<open>2^32 - 1\<close>.
\<close>

definition array_index :: "string \<Rightarrow> nat option" where
  "array_index s =
     (if s \<noteq> [] \<and> list_all is_digit s \<and> (s = ''0'' \<or> take 1 s \<noteq> ''0'')
         \<and> decimal s < 4294967295
      then Some (decimal s) else None)"

definition own_keys :: "'v own_properties \<Rightarrow> string list" where
  "own_keys obj = map fst obj"

definition hasOwn :: "'v own_properties \<Rightarrow> string \<Rightarrow> bool" where
  "hasOwn obj key = (key \<in> set (own_keys obj))"

text \<open>
  \<^verbatim>\<open>obj[key]\<close> for a record: the own value, or undefined. (A name found only on
  \<^verbatim>\<open>Object.prototype\<close> gives a function or an object there; its string form has no
  numeric prefix either, and the program reads such a value only through
  \<^verbatim>\<open>parseFloat\<close>.)
\<close>

definition getProp :: "'n jsobject \<Rightarrow> string \<Rightarrow> 'n jsval" where
  "getProp obj key = (case map_of obj key of None \<Rightarrow> JUndefined | Some v \<Rightarrow> v)"

text \<open>
  \<^verbatim>\<open>obj[key] = v\<close>, and a property definition of an object literal: an existing own
  property keeps its place and takes the new value; a new array index goes after the
  indices that are not greater, before everything else; any other new key goes last.
\<close>

fun replace_value :: "string \<Rightarrow> 'v \<Rightarrow> 'v own_properties \<Rightarrow> 'v own_properties" where
  "replace_value key v [] = []"
| "replace_value key v ((k, w) # rest) =
     (if k = key then (k, v) # rest else (k, w) # replace_value key v rest)"

fun insert_index :: "nat \<Rightarrow> string \<Rightarrow> 'v \<Rightarrow> 'v own_properties \<Rightarrow> 'v own_properties" where
  "insert_index n key v [] = [(key, v)]"
| "insert_index n key v ((k, w) # rest) =
     (case array_index k of
        None \<Rightarrow> (key, v) # (k, w) # rest
      | Some m \<Rightarrow>
          if m \<le> n then (k, w) # insert_index n key v rest
          else (key, v) # (k, w) # rest)"

definition setProp :: "'v own_properties \<Rightarrow> string \<Rightarrow> 'v \<Rightarrow> 'v own_properties" where
  "setProp obj key v =
     (if hasOwn obj key then replace_value key v obj
      else (case array_index key of
              None \<Rightarrow> obj @ [(key, v)]
            | Some n \<Rightarrow> insert_index n key v obj))"

datatype error = TypeError | NetworkError | ENOENT

text \<open>
  \<^verbatim>\<open>item.hasOwnProperty(key)\<close> looks the method up on the record itself. A record with
  an own field named \<^verbatim>\<open>hasOwnProperty\<close> (a CSV column of that name) shadows the method
  of \<^verbatim>\<open>Object.prototype\<close> with a primitive value, and calling it raises a TypeError.
\<close>

definition call_hasOwnProperty :: "'n jsobject \<Rightarrow> string \<Rightarrow> error + bool" where
  "call_hasOwnProperty obj key =
     (if hasOwn obj ''hasOwnProperty'' then Inl TypeError else Inr (hasOwn obj key))"

section \<open>The store\<close>

text \<open>
  Records and the \<^verbatim>\<open>properties\<close> objects of features are objects in a store, named by
  their addresses: a record is read through the reference the caller passed, and a
  \<^verbatim>\<open>properties\<close> object is written after its creation. The addresses below
  \<open>next_addr\<close> are allocated. Arrays (\<^verbatim>\<open>dataArray\<close>, \<^verbatim>\<open>propertiesToInclude\<close>) are
  lists: the program applies only \<^verbatim>\<open>length\<close>, \<^verbatim>\<open>map\<close>, \<^verbatim>\<open>filter\<close> and
  \<^verbatim>\<open>forEach\<close> to them, none of which writes to the array. Features, geometries and the
  collection are never written after the literal that creates them, and are values.
\<close>

type_synonym addr = nat

record 'n heap =
  cells :: "addr \<Rightarrow> 'n jsobject"
  next_addr :: addr

text \<open>\<^verbatim>\<open>{}\<close>: a fresh empty object.\<close>

definition new_object :: "'n heap \<Rightarrow> addr \<times> 'n heap" where
  "new_object h =
     (next_addr h, h\<lparr>cells := (cells h)(next_addr h := []), next_addr := Suc (next_addr h)\<rparr>)"

text \<open>\<^verbatim>\<open>target[key] = v\<close> through a reference.\<close>

definition assign :: "'n heap \<Rightarrow> addr \<Rightarrow> string \<Rightarrow> 'n jsval \<Rightarrow> 'n heap" where
  "assign h target key v = h\<lparr>cells := (cells h)(target := setProp (cells h target) key v)\<rparr>"

section \<open>The feature converter\<close>

record 'n geometry =
  gtype :: string
  coordinates :: "'n number list"

record 'n feature =
  ftype :: string
  geometry :: "'n geometry"
  properties :: addr

record crs =
  crs_type :: string
  crs_name :: string

record 'n featurecollection =
  fc_type :: string
  name :: string
  crs :: crs
  features :: "'n feature option list"

text \<open>
  \<^verbatim>\<open>propertiesToInclude.forEach(key => { if (item.hasOwnProperty(key))
  properties[key] = item[key]; })\<close>. A loop returns the store and the error raised, if any.
\<close>

fun include_loop :: "addr \<Rightarrow> addr \<Rightarrow> string list \<Rightarrow> 'n heap \<Rightarrow> 'n heap \<times> error option" where
  "include_loop item props [] h = (h, None)"
| "include_loop item props (key # keys) h =
     (case call_hasOwnProperty (cells h item) key of
        Inl e \<Rightarrow> (h, Some e)
      | Inr present \<Rightarrow>
          include_loop item props keys
            (if present then assign h props key (getProp (cells h item) key) else h))"

text \<open>
  \<^verbatim>\<open>for (const key in item) { if (item.hasOwnProperty(key) && key !== latKey &&
  key !== lngKey && !key.startsWith('-')) properties[key] = item[key]; }\<close>, over the keys
  the loop enumerates.
\<close>

fun forin_loop ::
  "string \<Rightarrow> string \<Rightarrow> addr \<Rightarrow> addr \<Rightarrow> string list \<Rightarrow> 'n heap \<Rightarrow> 'n heap \<times> error option" where
  "forin_loop latKey lngKey item props [] h = (h, None)"
| "forin_loop latKey lngKey item props (key # keys) h =
     (case call_hasOwnProperty (cells h item) key of
        Inl e \<Rightarrow> (h, Some e)
      | Inr present \<Rightarrow>
          forin_loop latKey lngKey item props keys
            (if present \<and> key \<noteq> latKey \<and> key \<noteq> lngKey \<and> \<not> startsWith key ''-''
             then assign h props key (getProp (cells h item) key) else h))"

text \<open>
  The function that \<^verbatim>\<open>dataArray.map\<close> applies to each record. It returns an object,
  written \<open>Some\<close>; \<open>None\<close> is \<^verbatim>\<open>null\<close>, which the filter after the map looks for.
\<close>

definition feature_of ::
  "'n numerics \<Rightarrow> string \<Rightarrow> string \<Rightarrow> string list \<Rightarrow> 'n heap \<Rightarrow> addr
     \<Rightarrow> 'n heap \<times> (error + 'n feature option)" where
  "feature_of N latKey lngKey propertiesToInclude h item =
     (let latitude = parseFloat N (getProp (cells h item) latKey);
          longitude = parseFloat N (getProp (cells h item) lngKey);
          (props, h1) = new_object h;
          (h2, raised) =
             (if length propertiesToInclude > 0
              then include_loop item props propertiesToInclude h1
              else forin_loop latKey lngKey item props (own_keys (cells h1 item)) h1)
      in case raised of
           Some e \<Rightarrow> (h2, Inl e)
         | None \<Rightarrow>
             (h2, Inr (Some \<lparr>ftype = ''Feature'',
                              geometry = \<lparr>gtype = ''Point'', coordinates = [longitude, latitude]\<rparr>,
                              properties = props\<rparr>)))"

text \<open>\<^verbatim>\<open>array.map(f)\<close>, where \<open>f\<close> works on the store and may raise.\<close>

fun array_map ::
  "('n heap \<Rightarrow> 'a \<Rightarrow> 'n heap \<times> (error + 'b)) \<Rightarrow> 'a list \<Rightarrow> 'n heap \<Rightarrow> 'n heap \<times> (error + 'b list)" where
  "array_map f [] h = (h, Inr [])"
| "array_map f (x # xs) h =
     (case f h x of
        (h1, Inl e) \<Rightarrow> (h1, Inl e)
      | (h1, Inr y) \<Rightarrow>
          (case array_map f xs h1 of
             (h2, Inl e) \<Rightarrow> (h2, Inl e)
           | (h2, Inr ys) \<Rightarrow> (h2, Inr (y # ys))))"

definition convertAssociativeArrayToGeoJSON ::
  "'n numerics \<Rightarrow> 'n heap \<Rightarrow> addr list \<Rightarrow> string \<Rightarrow> string \<Rightarrow> string \<Rightarrow> string list
     \<Rightarrow> 'n heap \<times> (error + 'n featurecollection)" where
  "convertAssociativeArrayToGeoJSON N h dataArray latKey lngKey layer_name propertiesToInclude =
     (case array_map (feature_of N latKey lngKey propertiesToInclude) dataArray h of
        (h1, Inl e) \<Rightarrow> (h1, Inl e)
      | (h1, Inr mapped) \<Rightarrow>
          (h1, Inr \<lparr>fc_type = ''FeatureCollection'',
                    name = layer_name,
                    crs = \<lparr>crs_type = ''name'', crs_name = ''urn:ogc:def:crs:OGC:1.3:CRS84''\<rparr>,
                    features = filter (\<lambda>feature. feature \<noteq> None) mapped\<rparr>))"

section \<open>Fetching and caching\<close>

text \<open>
  The CSV parser and the JSON printer are library functions, taken as parameters:
  \<open>papa_parse csv\<close> is \<^verbatim>\<open>Papa.parse(csv, {header: true, dynamicTyping: true}).data\<close>,
  the rows as fresh objects, and \<open>json_stringify indent h v\<close> is
  \<^verbatim>\<open>JSON.stringify(v, null, indent)\<close> in the store \<open>h\<close>. The world holds the store,
  the files by their paths, and the body text the remote service answers for a URL
  (\<open>None\<close> when the request cannot complete). A write to a file is taken to succeed.
\<close>

record 'n library =
  papa_parse :: "string \<Rightarrow> 'n jsobject list"
  json_stringify :: "nat \<Rightarrow> 'n heap \<Rightarrow> 'n featurecollection \<Rightarrow> string"

record 'n world =
  store :: "'n heap"
  files :: "string \<Rightarrow> string option"
  responses :: "string \<Rightarrow> string option"

fun allocate :: "'n jsobject list \<Rightarrow> 'n heap \<Rightarrow> addr list \<times> 'n heap" where
  "allocate [] h = ([], h)"
| "allocate (obj # objs) h =
     (let (refs, h') =
            allocate objs (h\<lparr>cells := (cells h)(next_addr h := obj), next_addr := Suc (next_addr h)\<rparr>)
      in (next_addr h # refs, h'))"

definition writeFileSync :: "'n world \<Rightarrow> string \<Rightarrow> string \<Rightarrow> 'n world" where
  "writeFileSync w path content = w\<lparr>files := (files w)(path \<mapsto> content)\<rparr>"

definition fetchAndCacheData ::
  "'n numerics \<Rightarrow> 'n library \<Rightarrow> string \<Rightarrow> 'n world \<Rightarrow> string \<Rightarrow> string
     \<Rightarrow> 'n world \<times> error option" where
  "fetchAndCacheData N L CACHE_DIRECTORY w dataset url =
     (case responses w url of
        None \<Rightarrow> (w, Some NetworkError)
      | Some csv \<Rightarrow>
          (let (array, h1) = allocate (papa_parse L csv) (store w);
               (h2, converted) =
                  convertAssociativeArrayToGeoJSON N h1 array ''Latitude'' ''Longitude''
                    (replace_first (CHR '' '') ''-'' (toLowerCase dataset)) []
           in case converted of
                Inl e \<Rightarrow> (w\<lparr>store := h2\<rparr>, Some e)
              | Inr geojson \<Rightarrow>
                  (writeFileSync
                    (writeFileSync
                      (writeFileSync (w\<lparr>store := h2\<rparr>)
                         (CACHE_DIRECTORY @ replace_all_space ''-'' dataset @ ''.csv'') csv)
                      (CACHE_DIRECTORY @ replace_all_space ''-'' dataset @ ''.geojson'')
                      (json_stringify L 2 h2 geojson))
                    (CACHE_DIRECTORY @ replace_all_space ''-'' dataset @ ''.min.geojson'')
                    (json_stringify L 0 h2 geojson),
                   None)))"

section \<open>Verification\<close>

text \<open>
  \<^verbatim>\<open>fs.readFileSync\<close> raises when the file does not exist; a function that ends without
  \<^verbatim>\<open>return\<close> gives undefined, written \<open>None\<close>.
\<close>

definition verifyCleanData :: "(string \<Rightarrow> string option) \<Rightarrow> string \<Rightarrow> error + string option" where
  "verifyCleanData fs filename =
     (case fs filename of
        None \<Rightarrow> Inl ENOENT
      | Some data \<Rightarrow>
          if str_includes data ''#REF!'' then Inr (Some (''#REF! found in '' @ filename))
          else if str_includes data ''Loading'' then Inr (Some (''Loading... found in '' @ filename))
          else Inr None)"

section \<open>The dataset catalog\<close>

text \<open>
  The object literal \<^verbatim>\<open>dataSets\<close>: its property definitions (\<open>dataSets_literal\<close>) are
  evaluated in the order written, each as an assignment to the object built so far.
\<close>

definition dataSets_literal :: "(string \<times> string) list" where
  "dataSets_literal =
     [(''0'', ''Fire Stations''),
      (''867350358'', ''Police Stations''),
      (''396287298'', ''Civil Supplies Godowns''),
      (''2107086279'', ''Ambulances''),
      (''410764449'', ''Apada Mitras''),
      (''973534772'', ''Apada Sakhis''),
      (''1309860234'', ''Cyclone Shelters''),
      (''36114476'', ''Dam Levels''),
      (''302060060'', ''Fire Appliances''),
      (''392979524'', ''Heavy Machinery''),
      (''495904604'', ''Hospitals''),
      (''236724982'', ''MHA Units''),
      (''1768104908'', ''Mutual Aid Agencies''),
      (''443003227'', ''Panchayats''),
      (''1689409318'', ''River Gauges''),
      (''1786282296'', ''Schools''),
      (''1929576986'', ''Tree Cutters''),
      (''920360157'', ''Water Resources''),
      (''0'', ''Capacity Building''),
      (''0'', ''High Density Spaces''),
      (''0'', ''Boats'')]"

definition dataSets :: "string own_properties" where
  "dataSets = fold (\<lambda>(key, v) obj. setProp obj key v) dataSets_literal []"

definition GOOGLESHEETURL :: string where
  "GOOGLESHEETURL = ''https://docs.google.com/spreadsheets/d/e/2PACX-1vQAjIaxmEf4dv9eGjASL9YSlVGJLsmvfggZpGApiUP4YD6uexFG4otpwy0wQAWUFW4De4Pz4QKy79yV/pub?single=true&output=csv&gid=''"

text \<open>
  Both loops of the batch driver run over \<^verbatim>\<open>Object.keys(dataSets)\<close> and read
  \<^verbatim>\<open>dataSets[key]\<close>. \<open>fetch_arguments\<close> lists the arguments \<open>(dataset, url)\<close> of the calls
  of \<^verbatim>\<open>fetchAndCacheData\<close> the first loop makes, in its order, and \<open>verify_arguments\<close>
  the file names the second loop passes to \<^verbatim>\<open>verifyCleanData\<close>; a loop that raises stops
  and makes a prefix of these calls. A value \<open>None\<close> is undefined.
\<close>

definition fetch_arguments :: "(string option \<times> string) list" where
  "fetch_arguments = map (\<lambda>key. (map_of dataSets key, GOOGLESHEETURL @ key)) (own_keys dataSets)"

definition verify_arguments :: "string \<Rightarrow> string option list" where
  "verify_arguments CACHE_DIRECTORY =
     map (\<lambda>key. map_option (\<lambda>dataset. CACHE_DIRECTORY @ replace_all_space ''-'' dataset @ ''.csv'')
                  (map_of dataSets key))
       (own_keys dataSets)"

section \<open>Notions used to state the properties\<close>

text \<open>
  The order in which JavaScript enumerates own keys: an array index comes before every
  key that is not one, and array indices ascend.
\<close>

definition key_before :: "string \<Rightarrow> string \<Rightarrow> bool" where
  "key_before k k' =
     (case array_index k of
        None \<Rightarrow> array_index k' = None
      | Some n \<Rightarrow> (case array_index k' of None \<Rightarrow> True | Some m \<Rightarrow> n \<le> m))"


text \<open>The elements of a list in the order of their first occurrences.\<close>

definition first_occurrences :: "'a list \<Rightarrow> 'a list" where
  "first_occurrences xs = fold (\<lambda>x acc. if x \<in> set acc then acc else acc @ [x]) xs []"

text \<open>
  What the two loops of the converter copy into an object \<open>p\<close>, as a fold over the keys
  they visit.
\<close>

definition copy_included :: "'n jsobject \<Rightarrow> string list \<Rightarrow> 'n jsobject \<Rightarrow> 'n jsobject" where
  "copy_included item keys p =
     fold (\<lambda>key q. if hasOwn item key then setProp q key (getProp item key) else q) keys p"

definition copy_others :: "string \<Rightarrow> string \<Rightarrow> 'n jsobject \<Rightarrow> string list \<Rightarrow> 'n jsobject \<Rightarrow> 'n jsobject" where
  "copy_others latKey lngKey item keys p =
     fold (\<lambda>key q. if hasOwn item key \<and> key \<noteq> latKey \<and> key \<noteq> lngKey \<and> \<not> startsWith key ''-''
                    then setProp q key (getProp item key) else q) keys p"

definition built_properties :: "string \<Rightarrow> string \<Rightarrow> string list \<Rightarrow> 'n jsobject \<Rightarrow> 'n jsobject" where
  "built_properties latKey lngKey propertiesToInclude item =
     (if length propertiesToInclude > 0 then copy_included item propertiesToInclude []
      else copy_others latKey lngKey item (own_keys item) [])"

text \<open>The references of an array point to allocated objects.\<close>

definition allocated :: "'n heap \<Rightarrow> addr list \<Rightarrow> bool" where
  "allocated h refs = list_all (\<lambda>a. a < next_addr h) refs"

text \<open>The feature the converter's object literal builds for a record.\<close>

definition point_feature :: "'n numerics \<Rightarrow> string \<Rightarrow> string \<Rightarrow> 'n jsobject \<Rightarrow> addr \<Rightarrow> 'n feature" where
  "point_feature N latKey lngKey item props =
     \<lparr>ftype = ''Feature'',
      geometry = \<lparr>gtype = ''Point'',
                  coordinates = [parseFloat N (getProp item lngKey), parseFloat N (getProp item latKey)]\<rparr>,
      properties = props\<rparr>"

section \<open>Concrete inputs\<close>

text \<open>
  For the concrete runs below a number is written as the decimal literal that denotes it.
  The store holds four records: two rows of a table with the columns Latitude, Longitude
  and Name; a row with a column named 1, a latitude that is not a number as a whole, and
  a column whose name starts with a hyphen; and a row of a table that has a column named
  hasOwnProperty.
\<close>

definition example_numerics :: "string numerics" where
  "example_numerics = \<lparr>number_of_literal = (\<lambda>lit. lit), string_of_number = (\<lambda>x. x)\<rparr>"

definition record_alpha :: "string jsobject" where
  "record_alpha =
     [(''Latitude'', JNumber (Numeric ''20.5'')), (''Longitude'', JNumber (Numeric ''85.8'')),
      (''Name'', JString ''Alpha'')]"

definition record_beta :: "string jsobject" where
  "record_beta =
     [(''Latitude'', JNumber (Numeric ''21'')), (''Longitude'', JNumber (Numeric ''86'')),
      (''Name'', JString ''Beta'')]"

definition record_gamma :: "string jsobject" where
  "record_gamma =
     [(''1'', JString ''one''), (''Name'', JString ''Gamma''), (''Latitude'', JString ''12abc''),
      (''-note'', JString ''draft'')]"

definition record_shadowing :: "string jsobject" where
  "record_shadowing =
     [(''hasOwnProperty'', JString ''x''), (''Latitude'', JNumber (Numeric ''20.5'')),
      (''Longitude'', JNumber (Numeric ''85.8''))]"

definition example_store :: "string heap" where
  "example_store =
     \<lparr>cells = (\<lambda>a. if a = 0 then record_alpha else if a = 1 then record_beta
                     else if a = 2 then record_gamma else if a = 3 then record_shadowing else []),
      next_addr = 4\<rparr>"

definition example_library :: "string library" where
  "example_library =
     \<lparr>papa_parse = (\<lambda>csv. if csv = ''Latitude,Longitude,Name\<newline>20.5,85.8,Alpha'' then [record_alpha] else []),
      json_stringify = (\<lambda>indent h collection. name collection)\<rparr>"

definition example_world :: "string world" where
  "example_world =
     \<lparr>store = \<lparr>cells = (\<lambda>a. []), next_addr = 0\<rparr>,
      files = (\<lambda>path. None),
      responses = (\<lambda>url. Some ''Latitude,Longitude,Name\<newline>20.5,85.8,Alpha'')\<rparr>"

section \<open>Strings: properties\<close>

lemma startsWith_prefix: "startsWith s t \<longleftrightarrow> prefix t s"
  unfolding startsWith_def
  by (metis prefix_def append_eq_conv_conj append_take_drop_id)

text \<open>\<^verbatim>\<open>includes\<close> decides whether the text contains the marker as a substring.\<close>

lemma str_includes_sublist: "str_includes s t \<longleftrightarrow> sublist t s"
  by (induction s) (auto simp: startsWith_prefix sublist_Cons_right)

lemma replace_all_space_map:
  "replace_all_space [r] s = map (\<lambda>c. if is_space c then r else c) s"
  by (induction s) auto

section \<open>Verification: properties\<close>

text \<open>
  C5. For every text read from the file: when the text contains \<^verbatim>\<open>#REF!\<close>,
  \<open>verifyCleanData\<close> returns the warning that names \<^verbatim>\<open>#REF!\<close>, also when it contains
  \<^verbatim>\<open>Loading\<close> as well; when it contains \<^verbatim>\<open>Loading\<close> and not \<^verbatim>\<open>#REF!\<close>, the warning
  that names \<^verbatim>\<open>Loading\<close>; when it contains neither, no value.
\<close>

theorem verifyCleanData_priority:
  assumes "fs filename = Some data"
  shows "(sublist ''#REF!'' data \<longrightarrow>
            verifyCleanData fs filename = Inr (Some (''#REF! found in '' @ filename)))
       \<and> (\<not> sublist ''#REF!'' data \<and> sublist ''Loading'' data \<longrightarrow>
            verifyCleanData fs filename = Inr (Some (''Loading... found in '' @ filename)))
       \<and> (\<not> sublist ''#REF!'' data \<and> \<not> sublist ''Loading'' data \<longrightarrow>
            verifyCleanData fs filename = Inr None)"
  using assms by (simp add: verifyCleanData_def str_includes_sublist)

theorem verifyCleanData_priority_witness:
  "sublist ''#REF!'' ''x,#REF!,Loading...'' \<and> sublist ''Loading'' ''x,#REF!,Loading...''
   \<and> verifyCleanData (\<lambda>p. if p = ''data/Boats.csv'' then Some ''x,#REF!,Loading...'' else None)
         ''data/Boats.csv''
       = Inr (Some ''#REF! found in data/Boats.csv'')"
proof -
  have a: "sublist ''#REF!'' ''x,#REF!,Loading...''"
    by (simp add: str_includes_sublist [symmetric] startsWith_def)
  have b: "sublist ''Loading'' ''x,#REF!,Loading...''"
    by (simp add: str_includes_sublist [symmetric] startsWith_def)
  show ?thesis
    using a b
      verifyCleanData_priority [of "\<lambda>p. if p = ''data/Boats.csv'' then Some ''x,#REF!,Loading...'' else None"
        "''data/Boats.csv''" "''x,#REF!,Loading...''"]
    by simp
qed

section \<open>Objects: properties\<close>

lemma hasOwn_map_of: "hasOwn obj key \<longleftrightarrow> map_of obj key \<noteq> None"
  by (simp add: hasOwn_def own_keys_def map_of_eq_None_iff)










lemma key_before_index_nonindex:
  "array_index k = Some n \<Longrightarrow> array_index k' = None \<Longrightarrow> key_before k k'"
  by (simp add: key_before_def)






subsection \<open>What a copying loop builds\<close>






lemma first_occurrences_distinct: "distinct xs \<Longrightarrow> first_occurrences xs = xs"
proof -
  have "distinct (acc @ xs) \<Longrightarrow>
        fold (\<lambda>x acc. if x \<in> set acc then acc else acc @ [x]) xs acc = acc @ xs" for acc
    by (induction xs arbitrary: acc) auto
  from this [of "[]"] show "distinct xs \<Longrightarrow> first_occurrences xs = xs"
    by (simp add: first_occurrences_def)
qed

lemma first_occurrences_remdups: "first_occurrences xs = rev (remdups (rev xs))"
proof -
  have "distinct acc \<Longrightarrow>
        fold (\<lambda>x acc. if x \<in> set acc then acc else acc @ [x]) xs acc
          = rev (remdups (rev (acc @ xs)))" for acc
  proof (induction xs arbitrary: acc rule: rev_induct)
    case Nil
    then show ?case by (simp add: distinct_remdups_id)
  next
    case (snoc x xs)
    then show ?case by (auto simp: distinct_remdups_id)
  qed
  from this [of "[]"] show ?thesis by (simp add: first_occurrences_def)
qed

section \<open>The loops on the store\<close>

lemma call_hasOwnProperty_cases:
  "call_hasOwnProperty obj key =
     (if hasOwn obj ''hasOwnProperty'' then Inl TypeError else Inr (hasOwn obj key))"
  by (simp add: call_hasOwnProperty_def)

lemma cells_assign: "cells (assign h target key v) a =
    (if a = target then setProp (cells h target) key v else cells h a)"
  by (simp add: assign_def)

lemma next_addr_assign: "next_addr (assign h target key v) = next_addr h"
  by (simp add: assign_def)

text \<open>A loop writes to the object \<open>props\<close> only, and allocates nothing.\<close>

lemma include_loop_frame:
  "a \<noteq> props \<Longrightarrow> cells (fst (include_loop item props keys h)) a = cells h a"
  by (induction keys arbitrary: h)
     (auto simp: call_hasOwnProperty_def cells_assign)

lemma include_loop_next_addr:
  "next_addr (fst (include_loop item props keys h)) = next_addr h"
  by (induction keys arbitrary: h)
     (auto simp: call_hasOwnProperty_def next_addr_assign)

lemma forin_loop_frame:
  "a \<noteq> props \<Longrightarrow> cells (fst (forin_loop latKey lngKey item props keys h)) a = cells h a"
  by (induction keys arbitrary: h)
     (auto simp: call_hasOwnProperty_def cells_assign)

lemma forin_loop_next_addr:
  "next_addr (fst (forin_loop latKey lngKey item props keys h)) = next_addr h"
  by (induction keys arbitrary: h)
     (auto simp: call_hasOwnProperty_def next_addr_assign)

text \<open>A loop raises exactly when it runs at least once on a record that shadows the method.\<close>

lemma include_loop_raises:
  "item \<noteq> props \<Longrightarrow>
   snd (include_loop item props keys h)
     = (if keys \<noteq> [] \<and> hasOwn (cells h item) ''hasOwnProperty'' then Some TypeError else None)"
  by (induction keys arbitrary: h)
     (auto simp: call_hasOwnProperty_def cells_assign)

lemma forin_loop_raises:
  "item \<noteq> props \<Longrightarrow>
   snd (forin_loop latKey lngKey item props keys h)
     = (if keys \<noteq> [] \<and> hasOwn (cells h item) ''hasOwnProperty'' then Some TypeError else None)"
  by (induction keys arbitrary: h)
     (auto simp: call_hasOwnProperty_def cells_assign)

text \<open>A loop that ends without raising has copied the fields into \<open>props\<close>.\<close>

lemma include_loop_copies:
  "item \<noteq> props \<Longrightarrow> snd (include_loop item props keys h) = None \<Longrightarrow>
   cells (fst (include_loop item props keys h)) props
     = copy_included (cells h item) keys (cells h props)"
proof (induction keys arbitrary: h)
  case Nil
  then show ?case by (simp add: copy_included_def)
next
  case (Cons key keys)
  from Cons.prems have ok: "\<not> hasOwn (cells h item) ''hasOwnProperty''"
    by (auto simp: call_hasOwnProperty_def)
  let ?h = "if hasOwn (cells h item) key then assign h props key (getProp (cells h item) key) else h"
  have step: "include_loop item props (key # keys) h = include_loop item props keys ?h"
    using ok by (simp add: call_hasOwnProperty_def)
  have item: "cells ?h item = cells h item"
    using Cons.prems(1) by (simp add: cells_assign)
  have "snd (include_loop item props keys ?h) = None"
    using Cons.prems(2) step by simp
  from Cons.IH [OF Cons.prems(1) this] show ?case
    unfolding step using item by (simp add: copy_included_def cells_assign)
qed

lemma forin_loop_copies:
  "item \<noteq> props \<Longrightarrow> snd (forin_loop latKey lngKey item props keys h) = None \<Longrightarrow>
   cells (fst (forin_loop latKey lngKey item props keys h)) props
     = copy_others latKey lngKey (cells h item) keys (cells h props)"
proof (induction keys arbitrary: h)
  case Nil
  then show ?case by (simp add: copy_others_def)
next
  case (Cons key keys)
  from Cons.prems have ok: "\<not> hasOwn (cells h item) ''hasOwnProperty''"
    by (auto simp: call_hasOwnProperty_def)
  let ?h = "if hasOwn (cells h item) key \<and> key \<noteq> latKey \<and> key \<noteq> lngKey \<and> \<not> startsWith key ''-''
            then assign h props key (getProp (cells h item) key) else h"
  have step: "forin_loop latKey lngKey item props (key # keys) h
                = forin_loop latKey lngKey item props keys ?h"
    using ok by (simp add: call_hasOwnProperty_def)
  have item: "cells ?h item = cells h item"
    using Cons.prems(1) by (simp add: cells_assign)
  have "snd (forin_loop latKey lngKey item props keys ?h) = None"
    using Cons.prems(2) step by simp
  from Cons.IH [OF Cons.prems(1) this] show ?case
    unfolding step using item by (simp add: copy_others_def cells_assign)
qed

section \<open>One record\<close>

lemma feature_of_frame:
  "a \<noteq> next_addr h \<Longrightarrow>
   cells (fst (feature_of N latKey lngKey propertiesToInclude h item)) a = cells h a"
  by (simp add: feature_of_def new_object_def Let_def case_prod_beta
        include_loop_frame forin_loop_frame split: option.splits)

lemma feature_of_next_addr:
  "next_addr (fst (feature_of N latKey lngKey propertiesToInclude h item)) = Suc (next_addr h)"
  by (simp add: feature_of_def new_object_def Let_def case_prod_beta
        include_loop_next_addr forin_loop_next_addr split: option.splits)

lemma feature_of_result:
  "item < next_addr h \<Longrightarrow>
   snd (feature_of N latKey lngKey propertiesToInclude h item)
     = (if hasOwn (cells h item) ''hasOwnProperty'' then Inl TypeError
        else Inr (Some (point_feature N latKey lngKey (cells h item) (next_addr h))))"
  by (auto simp: feature_of_def new_object_def Let_def case_prod_beta point_feature_def
        include_loop_raises forin_loop_raises hasOwn_def split: option.splits)

lemma feature_of_properties:
  assumes "item < next_addr h"
    and "snd (feature_of N latKey lngKey propertiesToInclude h item) = Inr r"
  shows "cells (fst (feature_of N latKey lngKey propertiesToInclude h item)) (next_addr h)
           = built_properties latKey lngKey propertiesToInclude (cells h item)"
proof -
  let ?h1 = "h\<lparr>cells := (cells h)(next_addr h := []), next_addr := Suc (next_addr h)\<rparr>"
  have ne: "item \<noteq> next_addr h" using assms(1) by simp
  have item: "cells ?h1 item = cells h item" using ne by simp
  show ?thesis
  proof (cases "length propertiesToInclude > 0")
    case True
    have "snd (include_loop item (next_addr h) propertiesToInclude ?h1) = None"
      using assms(2) True
      by (auto simp: feature_of_def new_object_def Let_def case_prod_beta split: option.splits)
    from include_loop_copies [OF ne this] show ?thesis
      using True item
      by (simp add: feature_of_def new_object_def Let_def case_prod_beta built_properties_def
            split: option.splits)
  next
    case False
    have "snd (forin_loop latKey lngKey item (next_addr h) (own_keys (cells ?h1 item)) ?h1) = None"
      using assms(2) False
      by (auto simp: feature_of_def new_object_def Let_def case_prod_beta split: option.splits)
    from forin_loop_copies [OF ne this] show ?thesis
      using False item
      by (simp add: feature_of_def new_object_def Let_def case_prod_beta built_properties_def
            split: option.splits)
  qed
qed

section \<open>The whole array\<close>

lemma fst_array_map_Cons:
  "fst (array_map f (x # xs) h) =
     (case snd (f h x) of Inl e \<Rightarrow> fst (f h x) | Inr y \<Rightarrow> fst (array_map f xs (fst (f h x))))"
  by (simp split: prod.splits sum.splits)

lemma snd_array_map_Cons:
  "snd (array_map f (x # xs) h) =
     (case snd (f h x) of
        Inl e \<Rightarrow> Inl e
      | Inr y \<Rightarrow> (case snd (array_map f xs (fst (f h x))) of Inl e \<Rightarrow> Inl e | Inr ys \<Rightarrow> Inr (y # ys)))"
  by (simp split: prod.splits sum.splits)

declare array_map.simps(2) [simp del]

lemma array_map_next_addr_le:
  "next_addr h \<le> next_addr (fst (array_map (feature_of N latKey lngKey incl) xs h))"
proof (induction xs arbitrary: h)
  case Nil
  then show ?case by simp
next
  case (Cons x xs)
  have "next_addr h \<le> next_addr (fst (feature_of N latKey lngKey incl h x))"
    by (simp add: feature_of_next_addr)
  moreover have "next_addr (fst (feature_of N latKey lngKey incl h x))
      \<le> next_addr (fst (array_map (feature_of N latKey lngKey incl) xs (fst (feature_of N latKey lngKey incl h x))))"
    by (rule Cons.IH)
  ultimately show ?case
    unfolding fst_array_map_Cons by (auto split: sum.splits)
qed

lemma array_map_frame:
  "a < next_addr h \<Longrightarrow>
   cells (fst (array_map (feature_of N latKey lngKey incl) xs h)) a = cells h a"
proof (induction xs arbitrary: h)
  case Nil
  then show ?case by simp
next
  case (Cons x xs)
  let ?h1 = "fst (feature_of N latKey lngKey incl h x)"
  have one: "cells ?h1 a = cells h a"
    using Cons.prems by (simp add: feature_of_frame)
  have "a < next_addr ?h1"
    using Cons.prems by (simp add: feature_of_next_addr)
  from Cons.IH [OF this] one show ?case
    unfolding fst_array_map_Cons by (auto split: sum.splits)
qed

lemma allocated_Cons: "allocated h (x # xs) \<longleftrightarrow> x < next_addr h \<and> allocated h xs"
  by (simp add: allocated_def)

lemma allocated_nth: "allocated h xs \<Longrightarrow> i < length xs \<Longrightarrow> xs ! i < next_addr h"
  by (simp add: allocated_def list_all_length)

lemma allocated_mono: "allocated h xs \<Longrightarrow> next_addr h \<le> next_addr h' \<Longrightarrow> allocated h' xs"
  by (auto simp: allocated_def list_all_iff)

lemma array_map_features:
  assumes "allocated h xs"
    and "snd (array_map (feature_of N latKey lngKey incl) xs h) = Inr ys"
  shows "length ys = length xs
       \<and> next_addr (fst (array_map (feature_of N latKey lngKey incl) xs h)) = next_addr h + length xs
       \<and> (\<forall>i<length xs.
            ys ! i = Some (point_feature N latKey lngKey (cells h (xs ! i)) (next_addr h + i))
          \<and> cells (fst (array_map (feature_of N latKey lngKey incl) xs h)) (next_addr h + i)
              = built_properties latKey lngKey incl (cells h (xs ! i)))"
  using assms
proof (induction xs arbitrary: h ys)
  case Nil
  then show ?case by simp
next
  case (Cons x xs)
  let ?F = "feature_of N latKey lngKey incl"
  let ?h1 = "fst (?F h x)"
  from Cons.prems(1) have x: "x < next_addr h" and xs: "allocated h xs"
    by (simp_all add: allocated_Cons)
  from Cons.prems(2) obtain y ys' where
    y: "snd (?F h x) = Inr y" and ys': "snd (array_map ?F xs ?h1) = Inr ys'" and ys: "ys = y # ys'"
    unfolding snd_array_map_Cons by (auto split: sum.splits)
  have next1: "next_addr ?h1 = Suc (next_addr h)"
    by (simp add: feature_of_next_addr)
  have y_eq: "y = Some (point_feature N latKey lngKey (cells h x) (next_addr h))"
    using y x by (simp add: feature_of_result split: if_splits)
  have props1: "cells ?h1 (next_addr h) = built_properties latKey lngKey incl (cells h x)"
    using feature_of_properties [OF x y] .
  have "allocated ?h1 xs"
    using xs next1 by (auto intro: allocated_mono)
  from Cons.IH [OF this ys'] have
    len: "length ys' = length xs"
    and nxt: "next_addr (fst (array_map ?F xs ?h1)) = next_addr ?h1 + length xs"
    and each: "\<And>i. i < length xs \<Longrightarrow>
         ys' ! i = Some (point_feature N latKey lngKey (cells ?h1 (xs ! i)) (next_addr ?h1 + i))
       \<and> cells (fst (array_map ?F xs ?h1)) (next_addr ?h1 + i)
           = built_properties latKey lngKey incl (cells ?h1 (xs ! i))"
    by blast+
  have fst_eq: "fst (array_map ?F (x # xs) h) = fst (array_map ?F xs ?h1)"
    unfolding fst_array_map_Cons using y by simp
  have old: "cells ?h1 (xs ! i) = cells h (xs ! i)" if "i < length xs" for i
    using allocated_nth [OF xs that] by (simp add: feature_of_frame)
  have first: "cells (fst (array_map ?F xs ?h1)) (next_addr h) = cells ?h1 (next_addr h)"
    by (rule array_map_frame) (simp add: next1)
  have "ys ! i = Some (point_feature N latKey lngKey (cells h ((x # xs) ! i)) (next_addr h + i))
      \<and> cells (fst (array_map ?F (x # xs) h)) (next_addr h + i)
          = built_properties latKey lngKey incl (cells h ((x # xs) ! i))"
    if "i < length (x # xs)" for i
  proof (cases i)
    case 0
    then show ?thesis
      using y_eq props1 first by (simp add: ys fst_eq)
  next
    case (Suc j)
    with that have j: "j < length xs" by simp
    from each [OF j] old [OF j] show ?thesis
      by (simp add: ys fst_eq Suc next1)
  qed
  then show ?case
    using len nxt by (simp add: ys fst_eq next1)
qed

lemma array_map_result:
  "allocated h xs \<Longrightarrow>
   (\<exists>ys. snd (array_map (feature_of N latKey lngKey incl) xs h) = Inr ys)
     \<longleftrightarrow> list_all (\<lambda>a. \<not> hasOwn (cells h a) ''hasOwnProperty'') xs"
proof (induction xs arbitrary: h)
  case Nil
  then show ?case by simp
next
  case (Cons x xs)
  let ?F = "feature_of N latKey lngKey incl"
  let ?h1 = "fst (?F h x)"
  from Cons.prems have x: "x < next_addr h" and xs: "allocated h xs"
    by (simp_all add: allocated_Cons)
  have "allocated ?h1 xs"
    using xs by (auto intro: allocated_mono simp: feature_of_next_addr)
  moreover have "cells ?h1 a = cells h a" if "a \<in> set xs" for a
    using xs that by (auto simp: allocated_def list_all_iff feature_of_frame)
  ultimately
  have IH: "(\<exists>ys. snd (array_map ?F xs ?h1) = Inr ys)
      \<longleftrightarrow> list_all (\<lambda>a. \<not> hasOwn (cells h a) ''hasOwnProperty'') xs"
    using Cons.IH [of ?h1] by (simp add: list_all_iff cong: ball_cong)
  show ?case
    unfolding snd_array_map_Cons using IH x
    by (auto simp: feature_of_result split: sum.splits)
qed

lemma array_map_error:
  "allocated h xs \<Longrightarrow> snd (array_map (feature_of N latKey lngKey incl) xs h) = Inl e
     \<Longrightarrow> e = TypeError"
proof (induction xs arbitrary: h)
  case Nil
  then show ?case by simp
next
  case (Cons x xs)
  let ?F = "feature_of N latKey lngKey incl"
  let ?h1 = "fst (?F h x)"
  from Cons.prems have x: "x < next_addr h" and xs: "allocated h xs"
    by (simp_all add: allocated_Cons)
  have "allocated ?h1 xs"
    using xs by (auto intro: allocated_mono simp: feature_of_next_addr)
  from Cons.IH [OF this] Cons.prems(2) x show ?case
    unfolding snd_array_map_Cons
    by (auto simp: feature_of_result split: sum.splits if_splits)
qed

section \<open>The converter\<close>

lemma fst_convert:
  "fst (convertAssociativeArrayToGeoJSON N h dataArray latKey lngKey layer_name incl)
     = fst (array_map (feature_of N latKey lngKey incl) dataArray h)"
  by (simp add: convertAssociativeArrayToGeoJSON_def split: prod.splits sum.splits)

lemma snd_convert:
  "snd (convertAssociativeArrayToGeoJSON N h dataArray latKey lngKey layer_name incl)
     = (case snd (array_map (feature_of N latKey lngKey incl) dataArray h) of
          Inl e \<Rightarrow> Inl e
        | Inr mapped \<Rightarrow>
            Inr \<lparr>fc_type = ''FeatureCollection'', name = layer_name,
                 crs = \<lparr>crs_type = ''name'', crs_name = ''urn:ogc:def:crs:OGC:1.3:CRS84''\<rparr>,
                 features = filter (\<lambda>feature. feature \<noteq> None) mapped\<rparr>)"
  by (simp add: convertAssociativeArrayToGeoJSON_def split: prod.splits sum.splits)

text \<open>
  When the converter returns, the filter has removed nothing: feature \<open>i\<close> is the one
  built from record \<open>i\<close>, and its \<^verbatim>\<open>properties\<close> object is the \<open>i\<close>-th fresh object.
\<close>

lemma convert_features:
  assumes "allocated h dataArray"
    and "snd (convertAssociativeArrayToGeoJSON N h dataArray latKey lngKey layer_name incl) = Inr fc"
  shows "length (features fc) = length dataArray"
    and "name fc = layer_name"
    and "i < length dataArray \<Longrightarrow>
           features fc ! i
             = Some (point_feature N latKey lngKey (cells h (dataArray ! i)) (next_addr h + i))"
    and "i < length dataArray \<Longrightarrow>
           cells (fst (convertAssociativeArrayToGeoJSON N h dataArray latKey lngKey layer_name incl))
               (next_addr h + i)
             = built_properties latKey lngKey incl (cells h (dataArray ! i))"
proof -
  let ?F = "feature_of N latKey lngKey incl"
  from assms(2) obtain mapped where
    mapped: "snd (array_map ?F dataArray h) = Inr mapped"
    and fc: "fc = \<lparr>fc_type = ''FeatureCollection'', name = layer_name,
                 crs = \<lparr>crs_type = ''name'', crs_name = ''urn:ogc:def:crs:OGC:1.3:CRS84''\<rparr>,
                 features = filter (\<lambda>feature. feature \<noteq> None) mapped\<rparr>"
    unfolding snd_convert by (auto split: sum.splits)
  note am = array_map_features [OF assms(1) mapped]
  have len: "length mapped = length dataArray" using am by simp
  have "\<forall>f \<in> set mapped. f \<noteq> None"
    using am len by (auto simp: in_set_conv_nth)
  then have same: "filter (\<lambda>feature. feature \<noteq> None) mapped = mapped"
    by (simp add: filter_id_conv)
  have feats: "features fc = mapped"
    unfolding fc using same by simp
  show "length (features fc) = length dataArray"
    using len by (simp add: feats)
  show "name fc = layer_name" by (simp add: fc)
  show "features fc ! i
          = Some (point_feature N latKey lngKey (cells h (dataArray ! i)) (next_addr h + i))"
    if "i < length dataArray"
    using am that by (simp add: feats)
  show "cells (fst (convertAssociativeArrayToGeoJSON N h dataArray latKey lngKey layer_name incl))
            (next_addr h + i)
          = built_properties latKey lngKey incl (cells h (dataArray ! i))"
    if "i < length dataArray"
    using am that by (simp add: fst_convert)
qed

text \<open>The converter raises exactly when some record shadows \<^verbatim>\<open>hasOwnProperty\<close>.\<close>

lemma convert_returns_iff:
  "allocated h dataArray \<Longrightarrow>
   (\<exists>fc. snd (convertAssociativeArrayToGeoJSON N h dataArray latKey lngKey layer_name incl) = Inr fc)
     \<longleftrightarrow> list_all (\<lambda>a. \<not> hasOwn (cells h a) ''hasOwnProperty'') dataArray"
  using array_map_result [of h dataArray N latKey lngKey incl]
  unfolding snd_convert by (auto split: sum.splits)

lemma convert_raises_TypeError:
  "allocated h dataArray \<Longrightarrow>
   snd (convertAssociativeArrayToGeoJSON N h dataArray latKey lngKey layer_name incl) = Inl e
     \<Longrightarrow> e = TypeError"
  using array_map_error [of h dataArray N latKey lngKey incl e]
  unfolding snd_convert by (auto split: sum.splits)

lemma parseFloat_NaN_iff:
  "parseFloat N v = NaN \<longleftrightarrow> numeric_prefix (dropWhile is_space (ToString N v)) = None"
  by (simp add: parseFloat_def split: option.splits)

lemma parseFloat_undefined: "parseFloat N JUndefined = NaN"
  by (simp add: parseFloat_def ToString_def numeric_prefix_def unsigned_literal_def
        startsWith_def is_space_def is_digit_def)

lemma getProp_absent: "\<not> hasOwn obj key \<Longrightarrow> getProp obj key = JUndefined"
  by (simp add: hasOwn_map_of getProp_def)

text \<open>A feature that is returned holds a reference to an object allocated by the call.\<close>

lemma feature_of_fresh:
  "snd (feature_of N latKey lngKey incl h item) = Inr r \<Longrightarrow>
   \<exists>f. r = Some f \<and> properties f = next_addr h"
  by (auto simp: feature_of_def new_object_def Let_def case_prod_beta split: option.splits)

lemma array_map_fresh:
  "snd (array_map (feature_of N latKey lngKey incl) xs h) = Inr ys \<Longrightarrow> Some f \<in> set ys \<Longrightarrow>
   next_addr h \<le> properties f
     \<and> properties f < next_addr (fst (array_map (feature_of N latKey lngKey incl) xs h))"
proof (induction xs arbitrary: h ys)
  case Nil
  then show ?case by simp
next
  case (Cons x xs)
  let ?F = "feature_of N latKey lngKey incl"
  let ?h1 = "fst (?F h x)"
  from Cons.prems(1) obtain y ys' where
    y: "snd (?F h x) = Inr y" and ys': "snd (array_map ?F xs ?h1) = Inr ys'" and ys: "ys = y # ys'"
    unfolding snd_array_map_Cons by (auto split: sum.splits)
  have fst_eq: "fst (array_map ?F (x # xs) h) = fst (array_map ?F xs ?h1)"
    unfolding fst_array_map_Cons using y by simp
  have next1: "next_addr ?h1 = Suc (next_addr h)"
    by (simp add: feature_of_next_addr)
  have grow: "next_addr ?h1 \<le> next_addr (fst (array_map ?F xs ?h1))"
    by (rule array_map_next_addr_le)
  from Cons.prems(2) consider "y = Some f" | "Some f \<in> set ys'"
    by (auto simp: ys)
  then show ?case
  proof cases
    case 1
    with feature_of_fresh [OF y] have "properties f = next_addr h" by auto
    then show ?thesis using grow next1 by (simp add: fst_eq)
  next
    case 2
    from Cons.IH [OF ys' 2] show ?thesis using next1 by (simp add: fst_eq)
  qed
qed

section \<open>Concrete runs\<close>

text \<open>
  The converter on the records of the concrete store, evaluated by unfolding the
  definitions. The record with a column named \<^verbatim>\<open>hasOwnProperty\<close> makes it raise.
\<close>

lemmas run_converter =
  convertAssociativeArrayToGeoJSON_def array_map.simps feature_of_def new_object_def assign_def
  own_keys_def hasOwn_def call_hasOwnProperty_def getProp_def setProp_def array_index_def
  decimal_def parseFloat_def ToString_def numeric_prefix_def unsigned_literal_def
  exponent_part_def startsWith_def is_digit_def is_space_def allocated_def
  example_numerics_def example_store_def record_alpha_def record_beta_def record_gamma_def
  record_shadowing_def

lemma example_run:
  "snd (convertAssociativeArrayToGeoJSON example_numerics example_store [0, 1]
          ''Latitude'' ''Longitude'' ''test'' [])
     = Inr \<lparr>fc_type = ''FeatureCollection'', name = ''test'',
            crs = \<lparr>crs_type = ''name'', crs_name = ''urn:ogc:def:crs:OGC:1.3:CRS84''\<rparr>,
            features =
              [Some \<lparr>ftype = ''Feature'',
                     geometry = \<lparr>gtype = ''Point'', coordinates = [Numeric ''85.8'', Numeric ''20.5'']\<rparr>,
                     properties = 4\<rparr>,
               Some \<lparr>ftype = ''Feature'',
                     geometry = \<lparr>gtype = ''Point'', coordinates = [Numeric ''86'', Numeric ''21'']\<rparr>,
                     properties = 5\<rparr>]\<rparr>"
  by (simp add: run_converter)

lemma example_run_properties:
  "cells (fst (convertAssociativeArrayToGeoJSON example_numerics example_store [0, 1]
          ''Latitude'' ''Longitude'' ''test'' [])) 4 = [(''Name'', JString ''Alpha'')]"
  "cells (fst (convertAssociativeArrayToGeoJSON example_numerics example_store [0, 1]
          ''Latitude'' ''Longitude'' ''test'' [])) 5 = [(''Name'', JString ''Beta'')]"
  by (simp_all add: run_converter)



lemma shadowing_run:
  "snd (convertAssociativeArrayToGeoJSON example_numerics example_store [0, 3]
          ''Latitude'' ''Longitude'' ''test'' []) = Inl TypeError"
  "snd (convertAssociativeArrayToGeoJSON example_numerics example_store [0, 3]
          ''Latitude'' ''Longitude'' ''test'' [''Latitude'']) = Inl TypeError"
  by (simp_all add: run_converter)

lemma toLowerCase_examples:
  "toLowerCase ''Fire Stations'' = ''fire stations''"
  "toLowerCase ''Civil Supplies Godowns'' = ''civil supplies godowns''"
  by code_simp+

lemmas run_fetch =
  fetchAndCacheData_def writeFileSync_def allocate.simps Let_def
  example_world_def example_library_def
  convertAssociativeArrayToGeoJSON_def array_map.simps feature_of_def new_object_def assign_def
  own_keys_def hasOwn_def call_hasOwnProperty_def getProp_def setProp_def array_index_def
  decimal_def parseFloat_def ToString_def numeric_prefix_def unsigned_literal_def
  exponent_part_def startsWith_def is_digit_def is_space_def
  example_numerics_def record_alpha_def toLowerCase_examples

lemma fire_stations_run:
  "snd (fetchAndCacheData example_numerics example_library ''data/'' example_world
          ''Fire Stations'' ''https://sheets.example/0'') = None"
  "files (fst (fetchAndCacheData example_numerics example_library ''data/'' example_world
          ''Fire Stations'' ''https://sheets.example/0'')) ''data/Fire-Stations.csv''
     = Some ''Latitude,Longitude,Name\<newline>20.5,85.8,Alpha''"
  "files (fst (fetchAndCacheData example_numerics example_library ''data/'' example_world
          ''Fire Stations'' ''https://sheets.example/0'')) ''data/Fire-Stations.geojson''
     = Some ''fire-stations''"
  "files (fst (fetchAndCacheData example_numerics example_library ''data/'' example_world
          ''Fire Stations'' ''https://sheets.example/0'')) ''data/Fire-Stations.min.geojson''
     = Some ''fire-stations''"
  "files (fst (fetchAndCacheData example_numerics example_library ''data/'' example_world
          ''Fire Stations'' ''https://sheets.example/0'')) ''data/FireStations.csv'' = None"
  "files (fst (fetchAndCacheData example_numerics example_library ''data/'' example_world
          ''Fire Stations'' ''https://sheets.example/0'')) ''data/FireStations.geojson'' = None"
  "files (fst (fetchAndCacheData example_numerics example_library ''data/'' example_world
          ''Fire Stations'' ''https://sheets.example/0'')) ''data/FireStations.min.geojson'' = None"
  by (simp_all add: run_fetch)

section \<open>The converter: claims\<close>

text \<open>
  C1. For every list of records and every record in it whose latitude field parses to a
  number \<open>L\<close> and whose longitude field parses to a number \<open>G\<close>, the feature the converter
  returns for that record is a Point feature whose coordinates are the two-element list
  \<open>[G, L]\<close>: longitude first, latitude second.
\<close>

theorem coordinates_longitude_latitude:
  assumes "allocated h dataArray"
    and "snd (convertAssociativeArrayToGeoJSON N h dataArray latKey lngKey layer_name
                propertiesToInclude) = Inr fc"
    and "i < length dataArray"
    and "parseFloat N (getProp (cells h (dataArray ! i)) latKey) = Numeric L"
    and "parseFloat N (getProp (cells h (dataArray ! i)) lngKey) = Numeric G"
  shows "\<exists>f. features fc ! i = Some f \<and> ftype f = ''Feature'' \<and> gtype (geometry f) = ''Point''
             \<and> coordinates (geometry f) = [Numeric G, Numeric L]"
  using convert_features(3) [OF assms(1,2,3)] assms(4,5)
  by (simp add: point_feature_def)

theorem coordinates_longitude_latitude_witness:
  "allocated example_store [0, 1]
   \<and> (\<exists>fc. snd (convertAssociativeArrayToGeoJSON example_numerics example_store [0, 1]
                  ''Latitude'' ''Longitude'' ''test'' []) = Inr fc
        \<and> (\<exists>f. features fc ! 0 = Some f \<and> ftype f = ''Feature'' \<and> gtype (geometry f) = ''Point''
               \<and> coordinates (geometry f) = [Numeric ''85.8'', Numeric ''20.5'']))"
proof -
  have a: "allocated example_store [0, 1]"
    by (simp add: allocated_def example_store_def)
  have lat: "parseFloat example_numerics (getProp (cells example_store ([0, 1] ! 0)) ''Latitude'')
               = Numeric ''20.5''"
    by (simp add: run_converter)
  have lng: "parseFloat example_numerics (getProp (cells example_store ([0, 1] ! 0)) ''Longitude'')
               = Numeric ''85.8''"
    by (simp add: run_converter)
  from coordinates_longitude_latitude [OF a example_run _ lat lng] a example_run
  show ?thesis by simp
qed






text \<open>
  C4. For every list of records, the features of the collection the converter returns are
  one per record, in the order of the records: the filter for null features removes
  nothing, and feature \<open>i\<close> is the feature built from record \<open>i\<close>, with the properties
  built from record \<open>i\<close>.
\<close>

theorem one_feature_per_record:
  assumes "allocated h dataArray"
    and "snd (convertAssociativeArrayToGeoJSON N h dataArray latKey lngKey layer_name
                propertiesToInclude) = Inr fc"
  shows "length (features fc) = length dataArray
       \<and> (\<forall>i<length dataArray.
            features fc ! i
              = Some (point_feature N latKey lngKey (cells h (dataArray ! i)) (next_addr h + i))
          \<and> cells (fst (convertAssociativeArrayToGeoJSON N h dataArray latKey lngKey layer_name
                          propertiesToInclude)) (next_addr h + i)
              = built_properties latKey lngKey propertiesToInclude (cells h (dataArray ! i)))"
  using convert_features [OF assms] by simp

theorem one_feature_per_record_witness:
  "allocated example_store [0, 1]
   \<and> (\<exists>fc. snd (convertAssociativeArrayToGeoJSON example_numerics example_store [0, 1]
                  ''Latitude'' ''Longitude'' ''test'' []) = Inr fc
        \<and> length (features fc) = 2
        \<and> features fc ! 0
            = Some (point_feature example_numerics ''Latitude'' ''Longitude'' record_alpha 4)
        \<and> features fc ! 1
            = Some (point_feature example_numerics ''Latitude'' ''Longitude'' record_beta 5))"
proof -
  have a: "allocated example_store [0, 1]"
    by (simp add: allocated_def example_store_def)
  note t = one_feature_per_record [OF a example_run]
  note t0 = t [THEN conjunct2, rule_format, of 0]
  note t1 = t [THEN conjunct2, rule_format, of 1]
  from t t0 t1 a example_run show ?thesis
    by (simp add: example_store_def)
qed

text \<open>
  C8, as amended. For every list of records none of which has an own field named
  \<^verbatim>\<open>hasOwnProperty\<close>, the converter raises no error and returns one feature per record.
  A coordinate is NaN exactly when the string form of the field's value, after leading
  white space, has no numeric prefix; it is NaN when the field is absent. A value that
  starts with a number gives that number.
\<close>

theorem missing_coordinates_are_NaN:
  assumes "allocated h dataArray"
    and "list_all (\<lambda>a. \<not> hasOwn (cells h a) ''hasOwnProperty'') dataArray"
  shows "\<exists>fc. snd (convertAssociativeArrayToGeoJSON N h dataArray latKey lngKey layer_name
                     propertiesToInclude) = Inr fc
          \<and> length (features fc) = length dataArray
          \<and> (\<forall>i<length dataArray. \<exists>f lng lat.
                features fc ! i = Some f \<and> coordinates (geometry f) = [lng, lat]
              \<and> (\<not> hasOwn (cells h (dataArray ! i)) latKey \<longrightarrow> lat = NaN)
              \<and> (\<not> hasOwn (cells h (dataArray ! i)) lngKey \<longrightarrow> lng = NaN)
              \<and> (lat = NaN \<longleftrightarrow>
                   numeric_prefix (dropWhile is_space
                     (ToString N (getProp (cells h (dataArray ! i)) latKey))) = None)
              \<and> (lng = NaN \<longleftrightarrow>
                   numeric_prefix (dropWhile is_space
                     (ToString N (getProp (cells h (dataArray ! i)) lngKey))) = None))"
proof -
  from assms obtain fc where
    fc: "snd (convertAssociativeArrayToGeoJSON N h dataArray latKey lngKey layer_name
                propertiesToInclude) = Inr fc"
    using convert_returns_iff [of h dataArray N latKey lngKey layer_name propertiesToInclude]
    by blast
  note cf = convert_features [OF assms(1) fc]
  have "\<exists>f lng lat.
          features fc ! i = Some f \<and> coordinates (geometry f) = [lng, lat]
        \<and> (\<not> hasOwn (cells h (dataArray ! i)) latKey \<longrightarrow> lat = NaN)
        \<and> (\<not> hasOwn (cells h (dataArray ! i)) lngKey \<longrightarrow> lng = NaN)
        \<and> (lat = NaN \<longleftrightarrow>
             numeric_prefix (dropWhile is_space
               (ToString N (getProp (cells h (dataArray ! i)) latKey))) = None)
        \<and> (lng = NaN \<longleftrightarrow>
             numeric_prefix (dropWhile is_space
               (ToString N (getProp (cells h (dataArray ! i)) lngKey))) = None)"
    if "i < length dataArray" for i
    using cf(3) [OF that]
    by (simp add: point_feature_def parseFloat_NaN_iff [symmetric] getProp_absent
          parseFloat_undefined)
  then show ?thesis
    using fc cf(1) by blast
qed

theorem missing_coordinates_are_NaN_witness:
  "allocated example_store [0, 2]
   \<and> list_all (\<lambda>a. \<not> hasOwn (cells example_store a) ''hasOwnProperty'') [0, 2]
   \<and> \<not> hasOwn (cells example_store ([0, 2] ! 1)) ''Longitude''
   \<and> (\<exists>fc. snd (convertAssociativeArrayToGeoJSON example_numerics example_store [0, 2]
                  ''Latitude'' ''Longitude'' ''test'' []) = Inr fc
        \<and> length (features fc) = 2
        \<and> (\<exists>f lat. features fc ! 1 = Some f \<and> coordinates (geometry f) = [NaN, lat]))"
proof -
  have a: "allocated example_store [0, 2]"
    by (simp add: allocated_def example_store_def)
  have b: "list_all (\<lambda>a. \<not> hasOwn (cells example_store a) ''hasOwnProperty'') [0, 2]"
    by (simp add: example_store_def hasOwn_def own_keys_def record_alpha_def record_gamma_def)
  have c: "\<not> hasOwn (cells example_store ([0, 2] ! 1)) ''Longitude''"
    by (simp add: example_store_def hasOwn_def own_keys_def record_gamma_def)
  from missing_coordinates_are_NaN [OF a b, of example_numerics "''Latitude''" "''Longitude''" "''test''" "[]"]
  obtain fc where
    fc: "snd (convertAssociativeArrayToGeoJSON example_numerics example_store [0, 2]
                ''Latitude'' ''Longitude'' ''test'' []) = Inr fc"
    and len: "length (features fc) = length [0::nat, 2]"
    and each: "\<forall>i<length [0::nat, 2]. \<exists>f lng lat.
                features fc ! i = Some f \<and> coordinates (geometry f) = [lng, lat]
              \<and> (\<not> hasOwn (cells example_store ([0, 2] ! i)) ''Latitude'' \<longrightarrow> lat = NaN)
              \<and> (\<not> hasOwn (cells example_store ([0, 2] ! i)) ''Longitude'' \<longrightarrow> lng = NaN)
              \<and> (lat = NaN \<longleftrightarrow>
                   numeric_prefix (dropWhile is_space
                     (ToString example_numerics (getProp (cells example_store ([0, 2] ! i)) ''Latitude''))) = None)
              \<and> (lng = NaN \<longleftrightarrow>
                   numeric_prefix (dropWhile is_space
                     (ToString example_numerics (getProp (cells example_store ([0, 2] ! i)) ''Longitude''))) = None)"
    by blast
  from each [rule_format, of 1] c obtain f lat where
    "features fc ! 1 = Some f" "coordinates (geometry f) = [NaN, lat]"
    by auto
  then show ?thesis
    using a b c fc len by auto
qed

text \<open>
  The latitude of the record is the text \<^verbatim>\<open>12abc\<close>, which is not a number as a whole (its
  numeric prefix is the proper prefix \<^verbatim>\<open>12\<close>); the coordinate is the number 12, not NaN.
\<close>

theorem numeric_prefix_counterexample:
  "getProp (cells example_store 2) ''Latitude'' = JString ''12abc''
   \<and> numeric_prefix ''12abc'' = Some ''12''
   \<and> snd (convertAssociativeArrayToGeoJSON example_numerics example_store [2]
            ''Latitude'' ''Longitude'' ''test'' [])
       = Inr \<lparr>fc_type = ''FeatureCollection'', name = ''test'',
              crs = \<lparr>crs_type = ''name'', crs_name = ''urn:ogc:def:crs:OGC:1.3:CRS84''\<rparr>,
              features =
                [Some \<lparr>ftype = ''Feature'',
                       geometry = \<lparr>gtype = ''Point'', coordinates = [NaN, Numeric ''12'']\<rparr>,
                       properties = 4\<rparr>]\<rparr>"
  by (simp add: run_converter)

text \<open>
  C10. The converter does not modify its inputs: after the call, also one that raises,
  every object allocated before it, and so every input record, has the fields and values
  it had; the properties object of a returned feature is an object allocated by the call,
  not one of the records. (The list \<^verbatim>\<open>propertiesToInclude\<close> and the array of records are
  only read.)
\<close>

theorem inputs_not_modified:
  "(\<forall>a<next_addr h.
      cells (fst (convertAssociativeArrayToGeoJSON N h dataArray latKey lngKey layer_name
                    propertiesToInclude)) a = cells h a)
   \<and> next_addr h \<le> next_addr (fst (convertAssociativeArrayToGeoJSON N h dataArray latKey lngKey
                                        layer_name propertiesToInclude))
   \<and> (\<forall>fc f. snd (convertAssociativeArrayToGeoJSON N h dataArray latKey lngKey layer_name
                      propertiesToInclude) = Inr fc \<longrightarrow>
          Some f \<in> set (features fc) \<longrightarrow>
            next_addr h \<le> properties f
          \<and> properties f < next_addr (fst (convertAssociativeArrayToGeoJSON N h dataArray latKey
                                             lngKey layer_name propertiesToInclude)))
   \<and> (allocated h dataArray \<longrightarrow>
        (\<forall>a \<in> set dataArray.
            cells (fst (convertAssociativeArrayToGeoJSON N h dataArray latKey lngKey layer_name
                          propertiesToInclude)) a = cells h a
          \<and> (\<forall>fc f. snd (convertAssociativeArrayToGeoJSON N h dataArray latKey lngKey layer_name
                             propertiesToInclude) = Inr fc \<longrightarrow>
                 Some f \<in> set (features fc) \<longrightarrow> properties f \<noteq> a)))"
proof -
  let ?F = "feature_of N latKey lngKey propertiesToInclude"
  let ?r = "convertAssociativeArrayToGeoJSON N h dataArray latKey lngKey layer_name
              propertiesToInclude"
  have frame: "cells (fst ?r) a = cells h a" if "a < next_addr h" for a
    using that by (simp add: fst_convert array_map_frame)
  have grow: "next_addr h \<le> next_addr (fst ?r)"
    by (simp add: fst_convert array_map_next_addr_le)
  have fresh: "next_addr h \<le> properties f \<and> properties f < next_addr (fst ?r)"
    if "snd ?r = Inr fc" and "Some f \<in> set (features fc)" for fc f
  proof -
    from that(1) obtain mapped where
      mapped: "snd (array_map ?F dataArray h) = Inr mapped"
      and "features fc = filter (\<lambda>feature. feature \<noteq> None) mapped"
      unfolding snd_convert by (auto split: sum.splits)
    with that(2) have "Some f \<in> set mapped" by simp
    from array_map_fresh [OF mapped this] show ?thesis
      by (simp add: fst_convert)
  qed
  have records: "cells (fst ?r) a = cells h a
      \<and> (\<forall>fc f. snd ?r = Inr fc \<longrightarrow> Some f \<in> set (features fc) \<longrightarrow> properties f \<noteq> a)"
    if "allocated h dataArray" and "a \<in> set dataArray" for a
  proof -
    from that have "a < next_addr h"
      by (simp add: allocated_def list_all_iff)
    then show ?thesis using frame fresh by fastforce
  qed
  show ?thesis
    using frame grow fresh records by blast
qed

theorem inputs_not_modified_witness:
  "allocated example_store [0, 1]
   \<and> cells (fst (convertAssociativeArrayToGeoJSON example_numerics example_store [0, 1]
                   ''Latitude'' ''Longitude'' ''test'' [])) 0 = record_alpha
   \<and> cells (fst (convertAssociativeArrayToGeoJSON example_numerics example_store [0, 1]
                   ''Latitude'' ''Longitude'' ''test'' [])) 1 = record_beta
   \<and> cells (fst (convertAssociativeArrayToGeoJSON example_numerics example_store [0, 1]
                   ''Latitude'' ''Longitude'' ''test'' [])) 4 = [(''Name'', JString ''Alpha'')]"
proof -
  have a: "allocated example_store [0, 1]"
    by (simp add: allocated_def example_store_def)
  note t = inputs_not_modified [of example_store example_numerics "[0, 1]" "''Latitude''"
             "''Longitude''" "''test''" "[]", THEN conjunct1, rule_format]
  have "cells (fst (convertAssociativeArrayToGeoJSON example_numerics example_store [0, 1]
                   ''Latitude'' ''Longitude'' ''test'' [])) 0 = cells example_store 0"
    by (rule t) (simp add: example_store_def)
  moreover have "cells (fst (convertAssociativeArrayToGeoJSON example_numerics example_store [0, 1]
                   ''Latitude'' ''Longitude'' ''test'' [])) 1 = cells example_store 1"
    by (rule t) (simp add: example_store_def)
  ultimately show ?thesis
    using a example_run_properties(1) by (simp add: example_store_def)
qed

section \<open>Fetching and caching: claims\<close>

text \<open>
  C6, as amended. For every dataset name, a call of \<open>fetchAndCacheData\<close> that completes
  has written its three artifacts under file names formed from the dataset name with every
  white space character replaced by a hyphen, with the suffixes \<^verbatim>\<open>.csv\<close>, \<^verbatim>\<open>.geojson\<close>
  and \<^verbatim>\<open>.min.geojson\<close>.
\<close>

theorem artifact_file_names:
  assumes "snd (fetchAndCacheData N L CACHE_DIRECTORY w dataset url) = None"
  shows "\<exists>csv pretty minified.
           responses w url = Some csv
         \<and> files (fst (fetchAndCacheData N L CACHE_DIRECTORY w dataset url))
             = (files w)
                 (CACHE_DIRECTORY @ map (\<lambda>c. if is_space c then CHR ''-'' else c) dataset @ ''.csv''
                    \<mapsto> csv,
                  CACHE_DIRECTORY @ map (\<lambda>c. if is_space c then CHR ''-'' else c) dataset @ ''.geojson''
                    \<mapsto> pretty,
                  CACHE_DIRECTORY @ map (\<lambda>c. if is_space c then CHR ''-'' else c) dataset
                    @ ''.min.geojson'' \<mapsto> minified)"
  using assms
  by (auto simp: fetchAndCacheData_def writeFileSync_def replace_all_space_map Let_def
           split: option.splits prod.splits sum.splits)

theorem artifact_file_names_witness:
  "snd (fetchAndCacheData example_numerics example_library ''data/'' example_world
          ''Fire Stations'' ''https://sheets.example/0'') = None
   \<and> files (fst (fetchAndCacheData example_numerics example_library ''data/'' example_world
          ''Fire Stations'' ''https://sheets.example/0'')) ''data/Fire-Stations.csv''
       = Some ''Latitude,Longitude,Name\<newline>20.5,85.8,Alpha''
   \<and> files (fst (fetchAndCacheData example_numerics example_library ''data/'' example_world
          ''Fire Stations'' ''https://sheets.example/0'')) ''data/Fire-Stations.geojson''
       = Some ''fire-stations''
   \<and> files (fst (fetchAndCacheData example_numerics example_library ''data/'' example_world
          ''Fire Stations'' ''https://sheets.example/0'')) ''data/Fire-Stations.min.geojson''
       = Some ''fire-stations''"
  using artifact_file_names [OF fire_stations_run(1)] fire_stations_run
  by simp

text \<open>
  The name \<^verbatim>\<open>Fire Stations\<close> without its white space is \<^verbatim>\<open>FireStations\<close>; no file of
  that name is written, and the three files are written under \<^verbatim>\<open>Fire-Stations\<close>.
\<close>

theorem artifact_file_names_counterexample:
  "filter (\<lambda>c. \<not> is_space c) ''Fire Stations'' = ''FireStations''
   \<and> snd (fetchAndCacheData example_numerics example_library ''data/'' example_world
          ''Fire Stations'' ''https://sheets.example/0'') = None
   \<and> files (fst (fetchAndCacheData example_numerics example_library ''data/'' example_world
          ''Fire Stations'' ''https://sheets.example/0'')) ''data/FireStations.csv'' = None
   \<and> files (fst (fetchAndCacheData example_numerics example_library ''data/'' example_world
          ''Fire Stations'' ''https://sheets.example/0'')) ''data/FireStations.geojson'' = None
   \<and> files (fst (fetchAndCacheData example_numerics example_library ''data/'' example_world
          ''Fire Stations'' ''https://sheets.example/0'')) ''data/FireStations.min.geojson'' = None
   \<and> files (fst (fetchAndCacheData example_numerics example_library ''data/'' example_world
          ''Fire Stations'' ''https://sheets.example/0'')) ''data/Fire-Stations.csv''
       = Some ''Latitude,Longitude,Name\<newline>20.5,85.8,Alpha''"
  using fire_stations_run by (simp add: is_space_def)

text \<open>
  C7. The collection name of a dataset name with two spaces: only the first space becomes
  a hyphen, the second is kept. The printer of the concrete library prints the name of the
  collection, so the persisted file shows the name the converter was given.
\<close>

theorem collection_name_second_space_kept:
  "replace_first (CHR '' '') ''-'' (toLowerCase ''Civil Supplies Godowns'')
     = ''civil-supplies godowns''
   \<and> replace_all_space ''-'' ''Civil Supplies Godowns'' = ''Civil-Supplies-Godowns''
   \<and> files (fst (fetchAndCacheData example_numerics example_library ''data/'' example_world
          ''Civil Supplies Godowns'' ''https://sheets.example/396287298''))
         ''data/Civil-Supplies-Godowns.geojson''
       = Some ''civil-supplies godowns''"
  by (simp add: run_fetch)

section \<open>The dataset catalog: properties\<close>

lemma dataSets_value:
  "dataSets =
     [(''0'', ''Boats''),
      (''36114476'', ''Dam Levels''),
      (''236724982'', ''MHA Units''),
      (''302060060'', ''Fire Appliances''),
      (''392979524'', ''Heavy Machinery''),
      (''396287298'', ''Civil Supplies Godowns''),
      (''410764449'', ''Apada Mitras''),
      (''443003227'', ''Panchayats''),
      (''495904604'', ''Hospitals''),
      (''867350358'', ''Police Stations''),
      (''920360157'', ''Water Resources''),
      (''973534772'', ''Apada Sakhis''),
      (''1309860234'', ''Cyclone Shelters''),
      (''1689409318'', ''River Gauges''),
      (''1768104908'', ''Mutual Aid Agencies''),
      (''1786282296'', ''Schools''),
      (''1929576986'', ''Tree Cutters''),
      (''2107086279'', ''Ambulances'')]"
  by (simp add: dataSets_def dataSets_literal_def setProp_def hasOwn_def own_keys_def
        array_index_def decimal_def is_digit_def)

lemma fetched_names:
  "map fst fetch_arguments =
     map Some
       [''Boats'', ''Dam Levels'', ''MHA Units'', ''Fire Appliances'', ''Heavy Machinery'',
        ''Civil Supplies Godowns'', ''Apada Mitras'', ''Panchayats'', ''Hospitals'',
        ''Police Stations'', ''Water Resources'', ''Apada Sakhis'', ''Cyclone Shelters'',
        ''River Gauges'', ''Mutual Aid Agencies'', ''Schools'', ''Tree Cutters'', ''Ambulances'']"
  by (simp add: fetch_arguments_def dataSets_value own_keys_def)

lemma verified_files:
  "verify_arguments CACHE_DIRECTORY =
     map (\<lambda>base. Some (CACHE_DIRECTORY @ base @ ''.csv''))
       [''Boats'', ''Dam-Levels'', ''MHA-Units'', ''Fire-Appliances'', ''Heavy-Machinery'',
        ''Civil-Supplies-Godowns'', ''Apada-Mitras'', ''Panchayats'', ''Hospitals'',
        ''Police-Stations'', ''Water-Resources'', ''Apada-Sakhis'', ''Cyclone-Shelters'',
        ''River-Gauges'', ''Mutual-Aid-Agencies'', ''Schools'', ''Tree-Cutters'', ''Ambulances'']"
  by (simp add: verify_arguments_def dataSets_value own_keys_def is_space_def)

text \<open>
  C9. The literal of the catalog writes the identifier 0 four times, for Fire Stations,
  Capacity Building, High Density Spaces and Boats; the object keeps the last value. Both
  loops of the batch driver run over 18 distinct identifiers, and the three earlier names
  are neither fetched nor verified.
\<close>

theorem catalog_identifier_zero_last_wins:
  "map snd (filter (\<lambda>entry. fst entry = ''0'') dataSets_literal)
     = [''Fire Stations'', ''Capacity Building'', ''High Density Spaces'', ''Boats'']
   \<and> map_of dataSets ''0'' = Some ''Boats''
   \<and> length (own_keys dataSets) = 18
   \<and> distinct (own_keys dataSets)
   \<and> length fetch_arguments = 18
   \<and> length (verify_arguments CACHE_DIRECTORY) = 18
   \<and> Some ''Fire Stations'' \<notin> set (map fst fetch_arguments)
   \<and> Some ''Capacity Building'' \<notin> set (map fst fetch_arguments)
   \<and> Some ''High Density Spaces'' \<notin> set (map fst fetch_arguments)
   \<and> Some (CACHE_DIRECTORY @ ''Fire-Stations.csv'') \<notin> set (verify_arguments CACHE_DIRECTORY)
   \<and> Some (CACHE_DIRECTORY @ ''Capacity-Building.csv'') \<notin> set (verify_arguments CACHE_DIRECTORY)
   \<and> Some (CACHE_DIRECTORY @ ''High-Density-Spaces.csv'') \<notin> set (verify_arguments CACHE_DIRECTORY)"
proof -
  have lit: "map snd (filter (\<lambda>entry. fst entry = ''0'') dataSets_literal)
     = [''Fire Stations'', ''Capacity Building'', ''High Density Spaces'', ''Boats'']"
    by (simp add: dataSets_literal_def)
  have zero: "map_of dataSets ''0'' = Some ''Boats''"
    by (simp add: dataSets_value)
  have keys: "length (own_keys dataSets) = 18" "distinct (own_keys dataSets)"
    by (simp_all add: dataSets_value own_keys_def)
  have lens: "length fetch_arguments = 18" "length (verify_arguments CACHE_DIRECTORY) = 18"
    by (simp_all add: fetch_arguments_def verify_arguments_def keys)
  have fetched: "Some ''Fire Stations'' \<notin> set (map fst fetch_arguments)"
    "Some ''Capacity Building'' \<notin> set (map fst fetch_arguments)"
    "Some ''High Density Spaces'' \<notin> set (map fst fetch_arguments)"
    by (simp_all add: fetched_names)
  have verified:
    "Some (CACHE_DIRECTORY @ ''Fire-Stations.csv'') \<notin> set (verify_arguments CACHE_DIRECTORY)"
    "Some (CACHE_DIRECTORY @ ''Capacity-Building.csv'') \<notin> set (verify_arguments CACHE_DIRECTORY)"
    "Some (CACHE_DIRECTORY @ ''High-Density-Spaces.csv'') \<notin> set (verify_arguments CACHE_DIRECTORY)"
    by (simp_all add: verified_files)
  show ?thesis
    using lit zero keys lens fetched verified by simp
qed

end
